theory Spec2Isabelle
  imports Main "HOL-Library.Sublist"
begin

section \<open>The schema model (types/schema.go)\<close>

text \<open>
  \<^verbatim>\<open>type ColumnSchema struct { Column string; TargetColumn string;
       Values []string; ValuesMapping map[string]string }\<close>

  A Go string is a sequence of bytes, so it is a \<^typ>\<open>string\<close> here. A Go map that
  may be \<^verbatim>\<open>nil\<close> is an optional partial function.
\<close>

record ColumnSchema =
  Column :: string
  TargetColumn :: string
  Values :: "string list"
  ValuesMapping :: "(string \<Rightarrow> string option) option"

section \<open>Errors and slice accesses\<close>

text \<open>
  The three errors of \<^verbatim>\<open>ReadCSVString\<close>, the wrapper \<^verbatim>\<open>convertData\<close> puts around
  them, and the run-time panic of an index expression that is out of range (index and
  length).
\<close>

datatype error =
    NoCSVData
  | CSVParseFailed string
  | CSVHasNoData
  | FailedToParse error
  | IndexOutOfRange nat nat

text \<open>\<^verbatim>\<open>xs[i]\<close> as an expression, and \<^verbatim>\<open>xs[i] = v\<close> as a statement.\<close>

definition index :: "'a list \<Rightarrow> nat \<Rightarrow> error + 'a" where
  "index xs i = (if i < length xs then Inr (xs ! i) else Inl (IndexOutOfRange i (length xs)))"

definition store :: "'a list \<Rightarrow> nat \<Rightarrow> 'a \<Rightarrow> error + 'a list" where
  "store xs i v = (if i < length xs then Inr (xs[i := v]) else Inl (IndexOutOfRange i (length xs)))"

section \<open>strings.TrimSpace\<close>

text \<open>
  \<^verbatim>\<open>strings.TrimSpace\<close> removes all leading and trailing white space, as defined by
  Unicode, from a string read as UTF-8. The white space code points are U+0009 to
  U+000D, U+0020, U+0085, U+00A0, U+1680, U+2000 to U+200A, U+2028, U+2029, U+202F, U+205F
  and U+3000; the table below holds their UTF-8 encodings. Bytes that do not decode to one
  of them (also bytes that are no valid UTF-8) are not white space.
\<close>

definition whiteSpace :: "string list" where
  "whiteSpace =
    [[CHR 0x09], [CHR 0x0A], [CHR 0x0B], [CHR 0x0C], [CHR 0x0D], [CHR 0x20],
     [CHR 0xC2, CHR 0x85], [CHR 0xC2, CHR 0xA0],
     [CHR 0xE1, CHR 0x9A, CHR 0x80],
     [CHR 0xE2, CHR 0x80, CHR 0x80], [CHR 0xE2, CHR 0x80, CHR 0x81],
     [CHR 0xE2, CHR 0x80, CHR 0x82], [CHR 0xE2, CHR 0x80, CHR 0x83],
     [CHR 0xE2, CHR 0x80, CHR 0x84], [CHR 0xE2, CHR 0x80, CHR 0x85],
     [CHR 0xE2, CHR 0x80, CHR 0x86], [CHR 0xE2, CHR 0x80, CHR 0x87],
     [CHR 0xE2, CHR 0x80, CHR 0x88], [CHR 0xE2, CHR 0x80, CHR 0x89],
     [CHR 0xE2, CHR 0x80, CHR 0x8A],
     [CHR 0xE2, CHR 0x80, CHR 0xA8], [CHR 0xE2, CHR 0x80, CHR 0xA9],
     [CHR 0xE2, CHR 0x80, CHR 0xAF],
     [CHR 0xE2, CHR 0x81, CHR 0x9F],
     [CHR 0xE3, CHR 0x80, CHR 0x80]]"

text \<open>The number of bytes of the white space code point a string starts (ends) with, 0 if
  it starts (ends) with none.\<close>

definition leadingSpace :: "string \<Rightarrow> nat" where
  "leadingSpace s = (case find (\<lambda>w. prefix w s) whiteSpace of None \<Rightarrow> 0 | Some w \<Rightarrow> length w)"

definition trailingSpace :: "string \<Rightarrow> nat" where
  "trailingSpace s = (case find (\<lambda>w. suffix w s) whiteSpace of None \<Rightarrow> 0 | Some w \<Rightarrow> length w)"

function TrimLeft :: "string \<Rightarrow> string" where
  "TrimLeft s = (if leadingSpace s = 0 then s else TrimLeft (drop (leadingSpace s) s))"
  by pat_completeness auto
termination
proof (relation "measure length")
  show "wf (measure length)" by simp
next
  fix s :: string
  assume pos: "leadingSpace s \<noteq> 0"
  have "leadingSpace [] = 0"
    by (simp add: leadingSpace_def whiteSpace_def)
  with pos have "s \<noteq> []" by auto
  with pos show "(drop (leadingSpace s) s, s) \<in> measure length" by simp
qed

function TrimRight :: "string \<Rightarrow> string" where
  "TrimRight s = (if trailingSpace s = 0 then s else TrimRight (take (length s - trailingSpace s) s))"
  by pat_completeness auto
termination
proof (relation "measure length")
  show "wf (measure length)" by simp
next
  fix s :: string
  assume pos: "trailingSpace s \<noteq> 0"
  have "trailingSpace [] = 0"
    by (simp add: trailingSpace_def whiteSpace_def)
  with pos have "s \<noteq> []" by auto
  with pos show "(take (length s - trailingSpace s) s, s) \<in> measure length" by simp
qed

declare TrimLeft.simps [simp del] TrimRight.simps [simp del]

definition TrimSpace :: "string \<Rightarrow> string" where
  "TrimSpace s = TrimRight (TrimLeft s)"

section \<open>utils.ReadCSVString\<close>

text \<open>
  \<^verbatim>\<open>if len(csvString) == 0 { return nil, fmt.Errorf("no CSV data to convert") }
  reader := csv.NewReader(strings.NewReader(csvString))
  records, err := reader.ReadAll()
  if err != nil { return nil, fmt.Errorf("failed to parse CSV: %v", err) }
  if len(records) < 1 { return nil, fmt.Errorf("CSV has no data") }
  return records, nil\<close>

  The reader of \<^verbatim>\<open>encoding/csv\<close> is the parameter \<open>readAll\<close>: it returns its error
  message or the records.
\<close>

definition ReadCSVString ::
  "(string \<Rightarrow> string + string list list) \<Rightarrow> string \<Rightarrow> error + string list list" where
  "ReadCSVString readAll csvString =
     (if length csvString = 0 then Inl NoCSVData
      else (case readAll csvString of
              Inl err \<Rightarrow> Inl (CSVParseFailed err)
            | Inr records \<Rightarrow>
                if length records < 1 then Inl CSVHasNoData else Inr records))"

section \<open>The conversion engine (converter/convert\_csv.go)\<close>

text \<open>
  \<^verbatim>\<open>func convertValue(value string, sourceCol types.ColumnSchema) string {
    if sourceCol.ValuesMapping != nil {
      if mappedValue, exists := sourceCol.ValuesMapping[value]; exists { return mappedValue }
    }
    return value }\<close>
\<close>

definition convertValue :: "string \<Rightarrow> ColumnSchema \<Rightarrow> string" where
  "convertValue val sourceCol =
     (case ValuesMapping sourceCol of
        Some valuesMapping \<Rightarrow>
          (case valuesMapping val of Some mappedValue \<Rightarrow> mappedValue | None \<Rightarrow> val)
      | None \<Rightarrow> val)"

text \<open>
  \<^verbatim>\<open>sourceColIndex := make(map[string]int)
  for i, colName := range records[0] { sourceColIndex[strings.TrimSpace(colName)] = i }\<close>

  The loop, from position \<open>i\<close> on, over the rest of the header.
\<close>

fun buildColIndex :: "nat \<Rightarrow> string list \<Rightarrow> (string \<Rightarrow> nat option) \<Rightarrow> (string \<Rightarrow> nat option)" where
  "buildColIndex i [] sourceColIndex = sourceColIndex"
| "buildColIndex i (colName # rest) sourceColIndex =
     buildColIndex (Suc i) rest (sourceColIndex(TrimSpace colName \<mapsto> i))"

text \<open>
  \<^verbatim>\<open>outputHeader := make([]string, len(targetSchema))
  for i, col := range targetSchema { outputHeader[i] = col.Column }\<close>
\<close>

fun fillHeader :: "nat \<Rightarrow> ColumnSchema list \<Rightarrow> string list \<Rightarrow> error + string list" where
  "fillHeader i [] outputHeader = Inr outputHeader"
| "fillHeader i (col # rest) outputHeader =
     (case store outputHeader i (Column col) of
        Inl e \<Rightarrow> Inl e
      | Inr outputHeader' \<Rightarrow> fillHeader (Suc i) rest outputHeader')"

text \<open>
  The scan of the source schema for one target column, which stops at the first entry
  whose \<^verbatim>\<open>TargetColumn\<close> is the target's \<^verbatim>\<open>Column\<close>:

  \<^verbatim>\<open>value := ""
  for _, sourceCol := range sourceSchema {
    if sourceCol.TargetColumn == targetCol.Column {
      if colIdx, exists := sourceColIndex[sourceCol.Column]; exists && colIdx < len(sourceRow) {
        sourceValue := strings.TrimSpace(sourceRow[colIdx])
        if sourceValue != "" { value = convertValue(sourceValue, sourceCol) }
      }
      break
    }
  }\<close>
\<close>

fun scanSourceSchema ::
  "(string \<Rightarrow> nat option) \<Rightarrow> string list \<Rightarrow> ColumnSchema \<Rightarrow> ColumnSchema list \<Rightarrow> error + string" where
  "scanSourceSchema sourceColIndex sourceRow targetCol [] = Inr ''''"
| "scanSourceSchema sourceColIndex sourceRow targetCol (sourceCol # rest) =
     (if TargetColumn sourceCol = Column targetCol then
        (case sourceColIndex (Column sourceCol) of
           Some colIdx \<Rightarrow>
             if colIdx < length sourceRow then
               (case index sourceRow colIdx of
                  Inl e \<Rightarrow> Inl e
                | Inr cell \<Rightarrow>
                    let sourceValue = TrimSpace cell in
                    if sourceValue \<noteq> '''' then Inr (convertValue sourceValue sourceCol)
                    else Inr '''')
             else Inr ''''
         | None \<Rightarrow> Inr '''')
      else scanSourceSchema sourceColIndex sourceRow targetCol rest)"

text \<open>
  \<^verbatim>\<open>for i, targetCol := range targetSchema { ...; outputRow[i] = value }\<close>
\<close>

fun fillRow ::
  "(string \<Rightarrow> nat option) \<Rightarrow> ColumnSchema list \<Rightarrow> string list \<Rightarrow>
   nat \<Rightarrow> ColumnSchema list \<Rightarrow> string list \<Rightarrow> error + string list" where
  "fillRow sourceColIndex sourceSchema sourceRow i [] outputRow = Inr outputRow"
| "fillRow sourceColIndex sourceSchema sourceRow i (targetCol # rest) outputRow =
     (case scanSourceSchema sourceColIndex sourceRow targetCol sourceSchema of
        Inl e \<Rightarrow> Inl e
      | Inr val \<Rightarrow>
          (case store outputRow i val of
             Inl e \<Rightarrow> Inl e
           | Inr outputRow' \<Rightarrow>
               fillRow sourceColIndex sourceSchema sourceRow (Suc i) rest outputRow'))"

text \<open>
  \<^verbatim>\<open>for rowIdx := 1; rowIdx < len(records); rowIdx++ {
    sourceRow := records[rowIdx]
    outputRow := make([]string, len(targetSchema))
    ...
    output = append(output, outputRow)
  }\<close>
\<close>

function convertRows ::
  "(string \<Rightarrow> nat option) \<Rightarrow> ColumnSchema list \<Rightarrow> ColumnSchema list \<Rightarrow>
   string list list \<Rightarrow> nat \<Rightarrow> string list list \<Rightarrow> error + string list list" where
  "convertRows sourceColIndex sourceSchema targetSchema records rowIdx output =
     (if rowIdx < length records then
        (case index records rowIdx of
           Inl e \<Rightarrow> Inl e
         | Inr sourceRow \<Rightarrow>
             (case fillRow sourceColIndex sourceSchema sourceRow 0 targetSchema
                     (replicate (length targetSchema) '''') of
                Inl e \<Rightarrow> Inl e
              | Inr outputRow \<Rightarrow>
                  convertRows sourceColIndex sourceSchema targetSchema records (Suc rowIdx)
                    (output @ [outputRow])))
      else Inr output)"
  by pat_completeness auto
termination
  by (relation "measure (\<lambda>(sourceColIndex, sourceSchema, targetSchema, records, rowIdx, output).
        length records - rowIdx)") auto

declare convertRows.simps [simp del]

text \<open>
  The map \<^verbatim>\<open>sourceColIndex\<close> of a header: the loop run from position 0 on the empty map.
\<close>

definition sourceColIndex :: "string list \<Rightarrow> (string \<Rightarrow> nat option)" where
  "sourceColIndex header = buildColIndex 0 header Map.empty"

text \<open>
  The body of \<^verbatim>\<open>convertData\<close> after the parse: the header \<^verbatim>\<open>records[0]\<close> is indexed,
  the output header is built and put first, the data rows follow.
\<close>

definition convertRecords ::
  "string list list \<Rightarrow> ColumnSchema list \<Rightarrow> ColumnSchema list \<Rightarrow> error + string list list" where
  "convertRecords records sourceSchema targetSchema =
     (case index records 0 of
        Inl e \<Rightarrow> Inl e
      | Inr header \<Rightarrow>
          (case fillHeader 0 targetSchema (replicate (length targetSchema) '''') of
             Inl e \<Rightarrow> Inl e
           | Inr outputHeader \<Rightarrow>
               convertRows (sourceColIndex header) sourceSchema targetSchema records 1
                 ([] @ [outputHeader])))"

text \<open>
  \<^verbatim>\<open>records, err := utils.ReadCSVString(csvString)
  if err != nil { return nil, fmt.Errorf("failed to parse CSV: %v", err) }\<close>
\<close>

definition convertData ::
  "(string \<Rightarrow> string + string list list) \<Rightarrow> string \<Rightarrow> ColumnSchema list \<Rightarrow> ColumnSchema list \<Rightarrow>
   error + string list list" where
  "convertData readAll csvString sourceSchema targetSchema =
     (case ReadCSVString readAll csvString of
        Inl err \<Rightarrow> Inl (FailedToParse err)
      | Inr records \<Rightarrow> convertRecords records sourceSchema targetSchema)"

section \<open>The cell the scan computes, in closed form\<close>

text \<open>
  The value of one output cell as an expression: the first source entry that names the
  target column, the position of its column in the header, the trimmed cell, the mapping.
  It is proved below to be what \<open>scanSourceSchema\<close> returns.
\<close>

definition cellValue ::
  "(string \<Rightarrow> nat option) \<Rightarrow> ColumnSchema list \<Rightarrow> string list \<Rightarrow> ColumnSchema \<Rightarrow> string" where
  "cellValue colIndex sourceSchema sourceRow targetCol =
     (case find (\<lambda>s. TargetColumn s = Column targetCol) sourceSchema of
        None \<Rightarrow> ''''
      | Some sourceCol \<Rightarrow>
          (case colIndex (Column sourceCol) of
             None \<Rightarrow> ''''
           | Some colIdx \<Rightarrow>
               if colIdx < length sourceRow then
                 (if TrimSpace (sourceRow ! colIdx) \<noteq> ''''
                  then convertValue (TrimSpace (sourceRow ! colIdx)) sourceCol else '''')
               else ''''))"

section \<open>The identity schema\<close>

text \<open>
  The schema of the round trip: the target schema, each entry feeding the column of its
  own name, with no values mapping.
\<close>

definition identitySchema :: "ColumnSchema list \<Rightarrow> ColumnSchema list" where
  "identitySchema targetSchema =
     map (\<lambda>t. t\<lparr>TargetColumn := Column t, ValuesMapping := None\<rparr>) targetSchema"

section \<open>The conversion with a precomputed target index\<close>

text \<open>
  The variant the design notes recommend: a map from target column name to source entry,
  built once per call, replaces the scan. An entry is stored only under a name that has
  none yet, so the first entry in declared order is kept. The rest of the cell rule is
  the one of the scan.
\<close>

fun buildTargetIndex ::
  "ColumnSchema list \<Rightarrow> (string \<Rightarrow> ColumnSchema option) \<Rightarrow> (string \<Rightarrow> ColumnSchema option)" where
  "buildTargetIndex [] targetIndex = targetIndex"
| "buildTargetIndex (sourceCol # rest) targetIndex =
     buildTargetIndex rest
       (if targetIndex (TargetColumn sourceCol) = None
        then targetIndex(TargetColumn sourceCol \<mapsto> sourceCol) else targetIndex)"

definition lookupSourceValue ::
  "(string \<Rightarrow> ColumnSchema option) \<Rightarrow> (string \<Rightarrow> nat option) \<Rightarrow> string list \<Rightarrow> ColumnSchema \<Rightarrow> string" where
  "lookupSourceValue targetIndex colIndex sourceRow targetCol =
     (case targetIndex (Column targetCol) of
        None \<Rightarrow> ''''
      | Some sourceCol \<Rightarrow>
          (case colIndex (Column sourceCol) of
             None \<Rightarrow> ''''
           | Some colIdx \<Rightarrow>
               if colIdx < length sourceRow then
                 (let sourceValue = TrimSpace (sourceRow ! colIdx) in
                  if sourceValue \<noteq> '''' then convertValue sourceValue sourceCol else '''')
               else ''''))"

definition convertRecordsIndexed ::
  "string list list \<Rightarrow> ColumnSchema list \<Rightarrow> ColumnSchema list \<Rightarrow> error + string list list" where
  "convertRecordsIndexed records sourceSchema targetSchema =
     (case records of
        [] \<Rightarrow> Inl (IndexOutOfRange 0 0)
      | header # dataRows \<Rightarrow>
          let targetIndex = buildTargetIndex sourceSchema Map.empty
          in Inr (map Column targetSchema #
                  map (\<lambda>sourceRow.
                         map (lookupSourceValue targetIndex (sourceColIndex header) sourceRow)
                           targetSchema) dataRows))"

section \<open>Example inputs\<close>

text \<open>
  A header with a padded name and the name \<open>id\<close> twice, a row with a blank cell and a
  short row; a source schema with a values mapping that has the empty string as a key, an
  entry with no target column, an entry whose column the header lacks, and a second entry
  for a target column that already has one; a target schema with a column that no source
  entry feeds.
\<close>

definition ex_records :: "string list list" where
  "ex_records =
     [[''id'', '' status '', ''id''],
      [''1'', '' Y '', ''7''],
      [''2'', ''   '', ''8''],
      [''3'']]"

definition ex_mapping :: "string \<Rightarrow> string option" where
  "ex_mapping = [''Y'' \<mapsto> ''true'', ''N'' \<mapsto> ''false'', '''' \<mapsto> ''unknown'']"

definition ex_status :: ColumnSchema where
  "ex_status = \<lparr>Column = ''status'', TargetColumn = ''is_active'', Values = [''Y'', ''N''],
                 ValuesMapping = Some ex_mapping\<rparr>"

definition ex_id :: ColumnSchema where
  "ex_id = \<lparr>Column = ''id'', TargetColumn = ''user_id'', Values = [], ValuesMapping = None\<rparr>"

definition ex_source :: "ColumnSchema list" where
  "ex_source =
     [ex_status, ex_id,
      \<lparr>Column = ''legacy'', TargetColumn = '''', Values = [], ValuesMapping = None\<rparr>,
      \<lparr>Column = ''nick'', TargetColumn = ''name'', Values = [], ValuesMapping = None\<rparr>,
      \<lparr>Column = ''status'', TargetColumn = ''user_id'', Values = [], ValuesMapping = None\<rparr>]"

definition ex_target :: "ColumnSchema list" where
  "ex_target =
     [\<lparr>Column = ''user_id'', TargetColumn = '''', Values = [], ValuesMapping = None\<rparr>,
      \<lparr>Column = ''is_active'', TargetColumn = '''', Values = [''true'', ''false''],
        ValuesMapping = None\<rparr>,
      \<lparr>Column = ''name'', TargetColumn = '''', Values = [], ValuesMapping = None\<rparr>,
      \<lparr>Column = ''phone'', TargetColumn = '''', Values = [], ValuesMapping = None\<rparr>]"

definition ex_output :: "string list list" where
  "ex_output =
     [[''user_id'', ''is_active'', ''name'', ''phone''],
      [''7'', ''true'', '''', ''''],
      [''8'', '''', '''', ''''],
      ['''', '''', '''', '''']]"

text \<open>A CSV text of two lines, and a reader that knows it and the text of one empty line,
  which holds no record.\<close>

definition ex_csv :: string where
  "ex_csv = ''id,status'' @ [CHR 0x0A] @ ''1,Y'' @ [CHR 0x0A]"

definition ex_reader :: "string \<Rightarrow> string + string list list" where
  "ex_reader csvString =
     (if csvString = ex_csv then Inr [[''id'', ''status''], [''1'', ''Y'']]
      else if csvString = [CHR 0x0A] then Inr []
      else Inl ''unknown text'')"

text \<open>A reader that returns records of different lengths whatever the text.\<close>

definition ex_ragged_reader :: "string \<Rightarrow> string + string list list" where
  "ex_ragged_reader csvString = Inr ex_records"

text \<open>A target column whose name is the empty string, and a source entry with no target
  column.\<close>

definition ex_unnamed_records :: "string list list" where
  "ex_unnamed_records = [[''legacy''], [''x'']]"

definition ex_unnamed_source :: "ColumnSchema list" where
  "ex_unnamed_source =
     [\<lparr>Column = ''legacy'', TargetColumn = '''', Values = [], ValuesMapping = None\<rparr>]"

definition ex_unnamed_target :: "ColumnSchema list" where
  "ex_unnamed_target =
     [\<lparr>Column = '''', TargetColumn = '''', Values = [], ValuesMapping = None\<rparr>]"

text \<open>A target column whose name starts with a space.\<close>

definition ex_padded_records :: "string list list" where
  "ex_padded_records = [[''id''], [''7'']]"

definition ex_padded_source :: "ColumnSchema list" where
  "ex_padded_source =
     [\<lparr>Column = ''id'', TargetColumn = '' id'', Values = [], ValuesMapping = None\<rparr>]"

definition ex_padded_target :: "ColumnSchema list" where
  "ex_padded_target =
     [\<lparr>Column = '' id'', TargetColumn = '''', Values = [], ValuesMapping = None\<rparr>]"

text \<open>A target schema with trimmed names and a mapping whose values are padded.\<close>

definition ex_round_mapping :: "string \<Rightarrow> string option" where
  "ex_round_mapping = [''Y'' \<mapsto> '' yes '', ''N'' \<mapsto> ''  '']"

definition ex_round_source :: "ColumnSchema list" where
  "ex_round_source =
     [\<lparr>Column = ''flag'', TargetColumn = ''active'', Values = [''Y'', ''N''],
       ValuesMapping = Some ex_round_mapping\<rparr>,
      \<lparr>Column = ''id'', TargetColumn = ''key'', Values = [], ValuesMapping = None\<rparr>]"

definition ex_round_target :: "ColumnSchema list" where
  "ex_round_target =
     [\<lparr>Column = ''key'', TargetColumn = '''', Values = [], ValuesMapping = None\<rparr>,
      \<lparr>Column = ''active'', TargetColumn = '''', Values = [], ValuesMapping = None\<rparr>]"

definition ex_round_records :: "string list list" where
  "ex_round_records = [[''id'', ''flag''], [''1'', ''Y''], [''2'', ''N'']]"

section \<open>The loops in closed form\<close>

lemma store_in_range: "i < length xs \<Longrightarrow> store xs i v = Inr (xs[i := v])"
  by (simp add: store_def)

lemma take_Suc_update: "i < length h \<Longrightarrow> take (Suc i) (h[i := x]) = take i h @ [x]"
  by (simp add: take_Suc_conv_app_nth)

lemma fillHeader_eq:
  "i + length cols \<le> length h \<Longrightarrow>
   fillHeader i cols h = Inr (take i h @ map Column cols @ drop (i + length cols) h)"
proof (induction cols arbitrary: i h)
  case Nil
  then show ?case by simp
next
  case (Cons c cols)
  then have i: "i < length h" by simp
  from Cons.prems have "Suc i + length cols \<le> length (h[i := Column c])" by simp
  from Cons.IH [OF this] i show ?case
    by (simp add: store_in_range take_Suc_update)
qed

lemma fillHeader_fresh:
  "fillHeader 0 T (replicate (length T) '''') = Inr (map Column T)"
  using fillHeader_eq [of 0 T "replicate (length T) ''''"] by simp

lemma scanSourceSchema_eq:
  "scanSourceSchema idx row t S = Inr (cellValue idx S row t)"
  by (induction S) (simp_all add: cellValue_def index_def Let_def split: option.splits)

lemma fillRow_eq:
  "i + length ts \<le> length out \<Longrightarrow>
   fillRow idx S row i ts out =
     Inr (take i out @ map (cellValue idx S row) ts @ drop (i + length ts) out)"
proof (induction ts arbitrary: i out)
  case Nil
  then show ?case by simp
next
  case (Cons t ts)
  then have i: "i < length out" by simp
  from Cons.prems have "Suc i + length ts \<le> length (out[i := cellValue idx S row t])" by simp
  from Cons.IH [OF this] i show ?case
    by (simp add: scanSourceSchema_eq store_in_range take_Suc_update)
qed

lemma fillRow_fresh:
  "fillRow idx S row 0 T (replicate (length T) '''') = Inr (map (cellValue idx S row) T)"
  using fillRow_eq [of 0 T "replicate (length T) ''''" idx S row] by simp

lemma convertRows_eq:
  "convertRows idx S T records rowIdx out =
     Inr (out @ map (\<lambda>row. map (cellValue idx S row) T) (drop rowIdx records))"
proof (induction idx S T records rowIdx out rule: convertRows.induct)
  case (1 idx S T records rowIdx out)
  show ?case
  proof (cases "rowIdx < length records")
    case True
    then have "drop rowIdx records = records ! rowIdx # drop (Suc rowIdx) records"
      by (simp add: Cons_nth_drop_Suc)
    with True "1.IH" [OF True, of "records ! rowIdx" "map (cellValue idx S (records ! rowIdx)) T"]
    show ?thesis
      by (subst convertRows.simps) (simp add: index_def fillRow_fresh)
  next
    case False
    then show ?thesis
      by (subst convertRows.simps) simp
  qed
qed

text \<open>Without a header the read of \<^verbatim>\<open>records[0]\<close> panics; with one, the conversion returns
  the header of the target schema and one row of cells per data row.\<close>

lemma convertRecords_Nil: "convertRecords [] S T = Inl (IndexOutOfRange 0 0)"
  by (simp add: convertRecords_def index_def)

lemma convertRecords_Cons:
  "convertRecords (header # dataRows) S T =
     Inr (map Column T #
          map (\<lambda>row. map (cellValue (sourceColIndex header) S row) T) dataRows)"
  by (simp add: convertRecords_def index_def fillHeader_fresh convertRows_eq)

section \<open>The parse and the cells of the result\<close>

lemma ReadCSVString_Inr:
  "ReadCSVString readAll csvString = Inr records \<Longrightarrow>
   csvString \<noteq> [] \<and> readAll csvString = Inr records \<and> records \<noteq> []"
  by (auto simp: ReadCSVString_def split: if_splits sum.splits)

lemma convertData_parsed:
  "ReadCSVString readAll csvString = Inr records \<Longrightarrow>
   convertData readAll csvString S T = convertRecords records S T"
  by (simp add: convertData_def)

lemma convertRecords_cell:
  assumes "0 < r" "r < length records" "i < length T"
  shows "\<exists>out. convertRecords records S T = Inr out \<and>
           out ! r ! i = cellValue (sourceColIndex (records ! 0)) S (records ! r) (T ! i)"
proof -
  from assms obtain header dataRows where recs: "records = header # dataRows"
    by (cases records) auto
  from assms recs obtain r' where r': "r = Suc r'" "r' < length dataRows"
    by (cases r) auto
  show ?thesis
    using assms(3) r' by (simp add: recs convertRecords_Cons)
qed

section \<open>The header index\<close>

lemma buildColIndex_absent:
  "\<forall>j<length header. TrimSpace (header ! j) \<noteq> name \<Longrightarrow>
   buildColIndex k header m name = m name"
proof (induction header arbitrary: k m)
  case Nil
  then show ?case by simp
next
  case (Cons h hs)
  from Cons.prems have h: "TrimSpace h \<noteq> name" by auto
  from Cons.prems have "\<forall>j<length hs. TrimSpace (hs ! j) \<noteq> name" by auto
  from Cons.IH [OF this] h show ?case by simp
qed

lemma buildColIndex_last:
  "i < length header \<Longrightarrow> TrimSpace (header ! i) = name \<Longrightarrow>
   \<forall>j<length header. i < j \<longrightarrow> TrimSpace (header ! j) \<noteq> name \<Longrightarrow>
   buildColIndex k header m name = Some (k + i)"
proof (induction header arbitrary: k m i)
  case Nil
  then show ?case by simp
next
  case (Cons h hs)
  show ?case
  proof (cases i)
    case 0
    with Cons.prems have "\<forall>j<length hs. TrimSpace (hs ! j) \<noteq> name" by auto
    from buildColIndex_absent [OF this] 0 Cons.prems(2) show ?thesis by simp
  next
    case (Suc i')
    with Cons.prems have a: "i' < length hs" "TrimSpace (hs ! i') = name" by auto
    from Cons.prems(3) Suc have b: "\<forall>j<length hs. i' < j \<longrightarrow> TrimSpace (hs ! j) \<noteq> name" by auto
    from Cons.IH [OF a b] Suc show ?thesis by simp
  qed
qed

lemma buildColIndex_Some:
  "buildColIndex k header m name = Some j \<Longrightarrow>
   m name = Some j \<or> (k \<le> j \<and> j < k + length header \<and> TrimSpace (header ! (j - k)) = name)"
proof (induction header arbitrary: k m)
  case Nil
  then show ?case by simp
next
  case (Cons h hs)
  from Cons.prems have "buildColIndex (Suc k) hs (m(TrimSpace h \<mapsto> k)) name = Some j"
    by simp
  from Cons.IH [OF this] consider
      (old) "(m(TrimSpace h \<mapsto> k)) name = Some j"
    | (new) "Suc k \<le> j" "j < Suc k + length hs" "TrimSpace (hs ! (j - Suc k)) = name"
    by blast
  then show ?case
  proof cases
    case old
    then show ?thesis by (cases "name = TrimSpace h") auto
  next
    case new
    then have "j - k = Suc (j - Suc k)" by arith
    with new show ?thesis by simp
  qed
qed

lemma buildColIndex_None:
  "buildColIndex k header m name = None \<Longrightarrow> m name = None \<and> name \<notin> TrimSpace ` set header"
proof (induction header arbitrary: k m)
  case Nil
  then show ?case by simp
next
  case (Cons h hs)
  from Cons.prems have "buildColIndex (Suc k) hs (m(TrimSpace h \<mapsto> k)) name = None"
    by simp
  from Cons.IH [OF this] have "(m(TrimSpace h \<mapsto> k)) name = None" "name \<notin> TrimSpace ` set hs"
    by blast+
  then show ?case by (cases "name = TrimSpace h") auto
qed

lemma sourceColIndex_last:
  "i < length header \<Longrightarrow> TrimSpace (header ! i) = name \<Longrightarrow>
   \<forall>j<length header. i < j \<longrightarrow> TrimSpace (header ! j) \<noteq> name \<Longrightarrow>
   sourceColIndex header name = Some i"
  using buildColIndex_last [of i header name 0 Map.empty] by (simp add: sourceColIndex_def)

lemma sourceColIndex_Some:
  "sourceColIndex header name = Some j \<Longrightarrow> j < length header \<and> TrimSpace (header ! j) = name"
  using buildColIndex_Some [of 0 header Map.empty name j] by (simp add: sourceColIndex_def)

lemma sourceColIndex_None:
  "sourceColIndex header name = None \<Longrightarrow> name \<notin> TrimSpace ` set header"
  using buildColIndex_None [of 0 header Map.empty name] by (simp add: sourceColIndex_def)

section \<open>The precomputed target index\<close>

lemma buildTargetIndex_eq:
  "buildTargetIndex S m name =
     (case m name of Some s \<Rightarrow> Some s | None \<Rightarrow> find (\<lambda>s. TargetColumn s = name) S)"
  by (induction S arbitrary: m) (auto split: option.splits)

lemma lookupSourceValue_eq:
  "lookupSourceValue (buildTargetIndex S Map.empty) idx row t = cellValue idx S row t"
  by (simp add: lookupSourceValue_def cellValue_def buildTargetIndex_eq Let_def
      split: option.splits)

text \<open>
  C9. The conversion that looks each target column up in a map from target column name to
  source entry, built once per call and keeping the first entry of each name, returns what
  the conversion with the scan per cell returns, for all records and all schemas.
\<close>

theorem convertRecordsIndexed_eq:
  "convertRecordsIndexed records S T = convertRecords records S T"
  by (cases records)
    (simp_all add: convertRecordsIndexed_def convertRecords_Nil convertRecords_Cons
      lookupSourceValue_eq)

section \<open>The shape of the result\<close>

text \<open>
  C1. When the parse returns records, \<open>convertData\<close> returns a table with as many rows
  as there are records (the header and one row per data row); its first row is the list of
  the target schema's column names in the order of the target schema, and every row has
  as many cells as the target schema has entries, whatever the source schema and the
  records are.
\<close>

theorem convertData_shape:
  assumes "ReadCSVString readAll csvString = Inr records"
  shows "\<exists>out. convertData readAll csvString S T = Inr out \<and>
           length out = length records \<and>
           out ! 0 = map Column T \<and>
           (\<forall>row\<in>set out. length row = length T)"
proof -
  from ReadCSVString_Inr [OF assms] obtain header dataRows where "records = header # dataRows"
    by (cases records) auto
  with convertData_parsed [OF assms, of S T] show ?thesis
    by (auto simp: convertRecords_Cons)
qed

theorem convertData_shape_witness:
  "ReadCSVString ex_reader ex_csv = Inr [[''id'', ''status''], [''1'', ''Y'']] \<and>
   (\<exists>out. convertData ex_reader ex_csv ex_source ex_target = Inr out \<and>
          length out = 2 \<and>
          out ! 0 = [''user_id'', ''is_active'', ''name'', ''phone''] \<and>
          list_all (\<lambda>row. length row = 4) out)"
proof -
  have parsed: "ReadCSVString ex_reader ex_csv = Inr [[''id'', ''status''], [''1'', ''Y'']]"
    by (simp add: ReadCSVString_def ex_reader_def ex_csv_def)
  from convertData_shape [OF parsed, of ex_source ex_target] parsed show ?thesis
    by (auto simp: ex_target_def list_all_iff)
qed

section \<open>Empty input\<close>

text \<open>
  C4. On the empty text \<open>convertData\<close> fails with the error of \<open>ReadCSVString\<close>
  for no data, and on a text that holds no record with its error for no records; a failure
  carries no rows. On a text that is not empty and parses to at least one record it returns
  a table.
\<close>

theorem convertData_empty_input:
  "(csvString = '''' \<longrightarrow> convertData readAll csvString S T = Inl (FailedToParse NoCSVData)) \<and>
   (csvString \<noteq> '''' \<and> readAll csvString = Inr [] \<longrightarrow>
      convertData readAll csvString S T = Inl (FailedToParse CSVHasNoData)) \<and>
   (csvString \<noteq> '''' \<and> readAll csvString = Inr records \<and> records \<noteq> [] \<longrightarrow>
      (\<exists>out. convertData readAll csvString S T = Inr out))"
proof (intro conjI impI)
  assume "csvString = ''''"
  then show "convertData readAll csvString S T = Inl (FailedToParse NoCSVData)"
    by (simp add: convertData_def ReadCSVString_def)
next
  assume "csvString \<noteq> '''' \<and> readAll csvString = Inr []"
  then show "convertData readAll csvString S T = Inl (FailedToParse CSVHasNoData)"
    by (simp add: convertData_def ReadCSVString_def)
next
  assume a: "csvString \<noteq> '''' \<and> readAll csvString = Inr records \<and> records \<noteq> []"
  then obtain header dataRows where "records = header # dataRows"
    by (cases records) auto
  with a show "\<exists>out. convertData readAll csvString S T = Inr out"
    by (simp add: convertData_def ReadCSVString_def convertRecords_Cons)
qed

theorem convertData_empty_input_witness:
  "convertData ex_reader '''' ex_source ex_target = Inl (FailedToParse NoCSVData) \<and>
   convertData ex_reader [CHR 0x0A] ex_source ex_target = Inl (FailedToParse CSVHasNoData) \<and>
   ex_csv \<noteq> '''' \<and> ex_reader ex_csv = Inr [[''id'', ''status''], [''1'', ''Y'']] \<and>
   (\<exists>out. convertData ex_reader ex_csv ex_source ex_target = Inr out)"
proof -
  have a: "ex_reader [CHR 0x0A] = Inr []"
    by (simp add: ex_reader_def ex_csv_def)
  have b: "ex_csv \<noteq> ''''" "ex_reader ex_csv = Inr [[''id'', ''status''], [''1'', ''Y'']]"
    by (simp_all add: ex_reader_def ex_csv_def)
  note inst = convertData_empty_input [where readAll = ex_reader and S = ex_source and T = ex_target]
  from inst [where csvString = "''''"] inst [where csvString = "[CHR 0x0A]"]
    inst [where csvString = ex_csv and records = "[[''id'', ''status''], [''1'', ''Y'']]"]
    a b
  show ?thesis by simp
qed

section \<open>No index out of range\<close>

text \<open>
  C10. \<open>convertData\<close> never ends in an index out of range. Whatever records the parse
  returns (rows shorter or longer than the header too), there is at least one, which is
  the header read by \<^verbatim>\<open>records[0]\<close>, and the conversion returns a table for any
  schemas; the same holds for \<open>convertRecords\<close> on any records that are not empty; and
  the scan of the source schema returns a value for any row and any index map, its one read
  of the row being inside the bound.
\<close>

theorem convertData_no_panic:
  "convertData readAll csvString S T \<noteq> Inl (IndexOutOfRange i n) \<and>
   (ReadCSVString readAll csvString = Inr records \<longrightarrow>
      records \<noteq> [] \<and> (\<exists>out. convertData readAll csvString S T = Inr out)) \<and>
   (records \<noteq> [] \<longrightarrow> (\<exists>out. convertRecords records S T = Inr out)) \<and>
   (\<exists>val. scanSourceSchema idx sourceRow t S = Inr val)"
proof (intro conjI impI)
  show "convertData readAll csvString S T \<noteq> Inl (IndexOutOfRange i n)"
  proof (cases "ReadCSVString readAll csvString")
    case (Inl e)
    then show ?thesis by (simp add: convertData_def)
  next
    case (Inr recs)
    from ReadCSVString_Inr [OF this] obtain header dataRows where "recs = header # dataRows"
      by (cases recs) auto
    with Inr show ?thesis by (simp add: convertData_def convertRecords_Cons)
  qed
next
  assume p: "ReadCSVString readAll csvString = Inr records"
  from ReadCSVString_Inr [OF p] show "records \<noteq> []" by simp
  then obtain header dataRows where "records = header # dataRows"
    by (cases records) auto
  with p show "\<exists>out. convertData readAll csvString S T = Inr out"
    by (simp add: convertData_def convertRecords_Cons)
next
  assume "records \<noteq> []"
  then obtain header dataRows where "records = header # dataRows"
    by (cases records) auto
  then show "\<exists>out. convertRecords records S T = Inr out"
    by (simp add: convertRecords_Cons)
next
  show "\<exists>val. scanSourceSchema idx sourceRow t S = Inr val"
    by (simp add: scanSourceSchema_eq)
qed

theorem convertData_no_panic_witness:
  "ReadCSVString ex_ragged_reader ''x'' = Inr ex_records \<and>
   convertData ex_ragged_reader ''x'' ex_source ex_target = Inr ex_output"
proof -
  have parsed: "ReadCSVString ex_ragged_reader ''x'' = Inr ex_records"
    by code_simp
  have result: "convertData ex_ragged_reader ''x'' ex_source ex_target = Inr ex_output"
    by code_simp
  from convertData_no_panic [where readAll = ex_ragged_reader and csvString = "''x''"
      and S = ex_source and T = ex_target and records = ex_records]
    parsed result
  show ?thesis by simp
qed

section \<open>The example evaluated\<close>

lemmas ex_defs =
  ex_records_def ex_source_def ex_target_def ex_status_def ex_id_def ex_output_def

lemma ex_header_index:
  "sourceColIndex (ex_records ! 0) ''id'' = Some 2"
  "sourceColIndex (ex_records ! 0) ''status'' = Some 1"
  "sourceColIndex (ex_records ! 0) ''nick'' = None"
  by code_simp+

lemma ex_convertRecords: "convertRecords ex_records ex_source ex_target = Inr ex_output"
  by code_simp

section \<open>The first matching entry and its values mapping\<close>

text \<open>
  C2 (as amended). For a data row and a target column, let \<open>s\<close> be the first entry of the
  source schema, in its declared order, whose target column is the target's name, let its
  column stand at position \<open>c\<close> of the header index, inside the row, and let \<open>v\<close> be the
  trimmed cell at \<open>c\<close>. The output cell is \<open>v\<close> when \<open>s\<close> has no values mapping
  or \<open>v\<close> is not a key of it; it is the mapped value when \<open>v\<close> is a key and \<open>v\<close> is
  not the empty string; when \<open>v\<close> is the empty string the output cell is empty, also if the
  empty string is a key.
\<close>

theorem convertRecords_mapped_cell:
  assumes "0 < r" "r < length records" "i < length T"
    and "find (\<lambda>s. TargetColumn s = Column (T ! i)) S = Some s"
    and "sourceColIndex (records ! 0) (Column s) = Some c"
    and "c < length (records ! r)"
  shows "\<exists>out. convertRecords records S T = Inr out \<and>
           out ! r ! i =
             (case ValuesMapping s of
                None \<Rightarrow> TrimSpace (records ! r ! c)
              | Some valuesMapping \<Rightarrow>
                  (case valuesMapping (TrimSpace (records ! r ! c)) of
                     None \<Rightarrow> TrimSpace (records ! r ! c)
                   | Some mappedValue \<Rightarrow>
                       if TrimSpace (records ! r ! c) = '''' then '''' else mappedValue))"
proof -
  from convertRecords_cell [OF assms(1-3), of S] obtain out where
    out: "convertRecords records S T = Inr out"
      "out ! r ! i = cellValue (sourceColIndex (records ! 0)) S (records ! r) (T ! i)"
    by blast
  from assms(4-6) have
    "cellValue (sourceColIndex (records ! 0)) S (records ! r) (T ! i) =
       (if TrimSpace (records ! r ! c) \<noteq> '''' then convertValue (TrimSpace (records ! r ! c)) s
        else '''')"
    by (simp add: cellValue_def)
  with out show ?thesis
    by (auto simp: convertValue_def split: option.splits)
qed

theorem convertRecords_mapped_cell_witness:
  "find (\<lambda>s. TargetColumn s = Column (ex_target ! 1)) ex_source = Some ex_status \<and>
   sourceColIndex (ex_records ! 0) (Column ex_status) = Some 1 \<and>
   ValuesMapping ex_status = Some ex_mapping \<and>
   TrimSpace (ex_records ! 1 ! 1) = ''Y'' \<and> ex_mapping ''Y'' = Some ''true'' \<and>
   (\<exists>out. convertRecords ex_records ex_source ex_target = Inr out \<and> out ! 1 ! 1 = ''true'')"
proof -
  have first: "find (\<lambda>s. TargetColumn s = Column (ex_target ! 1)) ex_source = Some ex_status"
    by (simp add: ex_defs)
  have pos: "sourceColIndex (ex_records ! 0) (Column ex_status) = Some 1"
    using ex_header_index by (simp add: ex_status_def)
  have cell: "TrimSpace (ex_records ! 1 ! 1) = ''Y''"
    by code_simp
  have m: "ValuesMapping ex_status = Some ex_mapping" "ex_mapping ''Y'' = Some ''true''"
    by (simp_all add: ex_status_def ex_mapping_def)
  have "(0::nat) < 1" "1 < length ex_records" "1 < length ex_target" "1 < length (ex_records ! 1)"
    by (simp_all add: ex_defs)
  from convertRecords_mapped_cell [OF this(1-3) first pos this(4)] first pos cell m
  show ?thesis by simp
qed

text \<open>
  The claim as first stated fails where the trimmed cell is the empty string and the empty
  string is a key of the mapping: the mapping gives \<open>unknown\<close>, the output cell is empty.
\<close>

theorem convertRecords_blank_key_counterexample:
  "find (\<lambda>s. TargetColumn s = Column (ex_target ! 1)) ex_source = Some ex_status \<and>
   sourceColIndex (ex_records ! 0) (Column ex_status) = Some 1 \<and>
   ValuesMapping ex_status = Some ex_mapping \<and>
   ex_mapping (TrimSpace (ex_records ! 2 ! 1)) = Some ''unknown'' \<and>
   convertRecords ex_records ex_source ex_target = Inr ex_output \<and>
   ex_output ! 2 ! 1 = '''' \<and> ex_output ! 2 ! 1 \<noteq> ''unknown''"
proof -
  have first: "find (\<lambda>s. TargetColumn s = Column (ex_target ! 1)) ex_source = Some ex_status"
    by (simp add: ex_defs)
  have pos: "sourceColIndex (ex_records ! 0) (Column ex_status) = Some 1"
    using ex_header_index by (simp add: ex_status_def)
  have cell: "TrimSpace (ex_records ! 2 ! 1) = ''''"
    by code_simp
  have m: "ValuesMapping ex_status = Some ex_mapping" "ex_mapping '''' = Some ''unknown''"
    by (simp_all add: ex_status_def ex_mapping_def)
  have out: "ex_output ! 2 ! 1 = ''''"
    by (simp add: ex_output_def)
  from first pos cell m out ex_convertRecords show ?thesis by simp
qed

section \<open>Missing mappings and missing cells\<close>

text \<open>
  C5. For a data row and a target column: if no source entry names the target column, or
  the column of the first entry that does is not in the header index, or it is at a
  position the row does not reach, then the conversion returns a table and the output cell
  is the empty string.
\<close>

theorem convertRecords_missing_is_blank:
  assumes "0 < r" "r < length records" "i < length T"
    and "find (\<lambda>s. TargetColumn s = Column (T ! i)) S = None \<or>
         (\<exists>s. find (\<lambda>s. TargetColumn s = Column (T ! i)) S = Some s \<and>
              (sourceColIndex (records ! 0) (Column s) = None \<or>
               (\<exists>c. sourceColIndex (records ! 0) (Column s) = Some c \<and>
                    length (records ! r) \<le> c)))"
  shows "\<exists>out. convertRecords records S T = Inr out \<and> out ! r ! i = ''''"
proof -
  from convertRecords_cell [OF assms(1-3), of S] obtain out where
    out: "convertRecords records S T = Inr out"
      "out ! r ! i = cellValue (sourceColIndex (records ! 0)) S (records ! r) (T ! i)"
    by blast
  from assms(4) have "cellValue (sourceColIndex (records ! 0)) S (records ! r) (T ! i) = ''''"
    by (auto simp: cellValue_def)
  with out show ?thesis by simp
qed

theorem convertRecords_missing_is_blank_witness:
  "find (\<lambda>s. TargetColumn s = Column (ex_target ! 3)) ex_source = None \<and>
   (\<exists>out. convertRecords ex_records ex_source ex_target = Inr out \<and> out ! 1 ! 3 = '''') \<and>
   find (\<lambda>s. TargetColumn s = Column (ex_target ! 2)) ex_source = Some (ex_source ! 3) \<and>
   sourceColIndex (ex_records ! 0) (Column (ex_source ! 3)) = None \<and>
   (\<exists>out. convertRecords ex_records ex_source ex_target = Inr out \<and> out ! 1 ! 2 = '''') \<and>
   find (\<lambda>s. TargetColumn s = Column (ex_target ! 0)) ex_source = Some ex_id \<and>
   sourceColIndex (ex_records ! 0) (Column ex_id) = Some 2 \<and>
   length (ex_records ! 3) = 1 \<and>
   (\<exists>out. convertRecords ex_records ex_source ex_target = Inr out \<and> out ! 3 ! 0 = '''')"
proof -
  have len: "(0::nat) < 1" "(0::nat) < 3" "1 < length ex_records" "3 < length ex_records"
    "0 < length ex_target" "2 < length ex_target" "3 < length ex_target"
    by (simp_all add: ex_defs)
  have none: "find (\<lambda>s. TargetColumn s = Column (ex_target ! 3)) ex_source = None"
    by (simp add: ex_defs)
  have nick: "find (\<lambda>s. TargetColumn s = Column (ex_target ! 2)) ex_source = Some (ex_source ! 3)"
    "sourceColIndex (ex_records ! 0) (Column (ex_source ! 3)) = None"
    using ex_header_index by (simp_all add: ex_source_def ex_target_def ex_status_def ex_id_def)
  have short: "find (\<lambda>s. TargetColumn s = Column (ex_target ! 0)) ex_source = Some ex_id"
    "sourceColIndex (ex_records ! 0) (Column ex_id) = Some 2" "length (ex_records ! 3) = 1"
    using ex_header_index by (simp_all add: ex_source_def ex_target_def ex_status_def ex_id_def ex_records_def)
  from convertRecords_missing_is_blank [OF len(1) len(3) len(7), of ex_source]
    convertRecords_missing_is_blank [OF len(1) len(3) len(6), of ex_source]
    convertRecords_missing_is_blank [OF len(2) len(4) len(5), of ex_source]
    none nick short
  show ?thesis by simp
qed

section \<open>Blank cells\<close>

text \<open>
  C6. For a data row and a target column, if the source cell the target resolves to trims
  to the empty string, the output cell is the empty string, whatever values mapping the
  source entry has.
\<close>

theorem convertRecords_blank_cell:
  assumes "0 < r" "r < length records" "i < length T"
    and "find (\<lambda>s. TargetColumn s = Column (T ! i)) S = Some s"
    and "sourceColIndex (records ! 0) (Column s) = Some c"
    and "c < length (records ! r)"
    and "TrimSpace (records ! r ! c) = ''''"
  shows "\<exists>out. convertRecords records S T = Inr out \<and> out ! r ! i = ''''"
proof -
  from convertRecords_cell [OF assms(1-3), of S] obtain out where
    out: "convertRecords records S T = Inr out"
      "out ! r ! i = cellValue (sourceColIndex (records ! 0)) S (records ! r) (T ! i)"
    by blast
  from assms(4-7) have "cellValue (sourceColIndex (records ! 0)) S (records ! r) (T ! i) = ''''"
    by (simp add: cellValue_def)
  with out show ?thesis by simp
qed

theorem convertRecords_blank_cell_witness:
  "find (\<lambda>s. TargetColumn s = Column (ex_target ! 1)) ex_source = Some ex_status \<and>
   sourceColIndex (ex_records ! 0) (Column ex_status) = Some 1 \<and>
   ex_records ! 2 ! 1 = ''   '' \<and> TrimSpace (ex_records ! 2 ! 1) = '''' \<and>
   ValuesMapping ex_status = Some ex_mapping \<and> ex_mapping '''' = Some ''unknown'' \<and>
   (\<exists>out. convertRecords ex_records ex_source ex_target = Inr out \<and> out ! 2 ! 1 = '''')"
proof -
  have first: "find (\<lambda>s. TargetColumn s = Column (ex_target ! 1)) ex_source = Some ex_status"
    by (simp add: ex_defs)
  have pos: "sourceColIndex (ex_records ! 0) (Column ex_status) = Some 1"
    using ex_header_index by (simp add: ex_status_def)
  have raw: "ex_records ! 2 ! 1 = ''   ''"
    by (simp add: ex_records_def)
  have cell: "TrimSpace (ex_records ! 2 ! 1) = ''''"
    by code_simp
  have m: "ValuesMapping ex_status = Some ex_mapping" "ex_mapping '''' = Some ''unknown''"
    by (simp_all add: ex_status_def ex_mapping_def)
  have "(0::nat) < 2" "2 < length ex_records" "1 < length ex_target" "1 < length (ex_records ! 2)"
    by (simp_all add: ex_defs)
  from convertRecords_blank_cell [OF this(1-3) first pos this(4) cell] first pos raw cell m
  show ?thesis by simp
qed

section \<open>Duplicate header names\<close>

text \<open>
  C7. If position \<open>i\<close> is the last one of the header whose trimmed name is the column of
  the source entry a target column resolves to, the header index maps that name to
  \<open>i\<close>, and the output cell is computed from the cell of the row at \<open>i\<close>.
\<close>

theorem sourceColIndex_last_wins:
  assumes "0 < r" "r < length records" "k < length T"
    and "find (\<lambda>s. TargetColumn s = Column (T ! k)) S = Some s"
    and "i < length (records ! 0)"
    and "TrimSpace (records ! 0 ! i) = Column s"
    and "\<forall>j<length (records ! 0). i < j \<longrightarrow> TrimSpace (records ! 0 ! j) \<noteq> Column s"
  shows "sourceColIndex (records ! 0) (Column s) = Some i \<and>
     (\<exists>out. convertRecords records S T = Inr out \<and>
        out ! r ! k =
          (if i < length (records ! r) then
             (if TrimSpace (records ! r ! i) \<noteq> ''''
              then convertValue (TrimSpace (records ! r ! i)) s else '''')
           else ''''))"
proof -
  from sourceColIndex_last [OF assms(5-7)]
  have pos: "sourceColIndex (records ! 0) (Column s) = Some i" .
  from convertRecords_cell [OF assms(1-3), of S] obtain out where
    out: "convertRecords records S T = Inr out"
      "out ! r ! k = cellValue (sourceColIndex (records ! 0)) S (records ! r) (T ! k)"
    by blast
  from assms(4) pos out show ?thesis
    by (simp add: cellValue_def)
qed

theorem sourceColIndex_last_wins_witness:
  "ex_records ! 0 = [''id'', '' status '', ''id''] \<and>
   find (\<lambda>s. TargetColumn s = Column (ex_target ! 0)) ex_source = Some ex_id \<and>
   Column ex_id = ''id'' \<and>
   sourceColIndex (ex_records ! 0) ''id'' = Some 2 \<and>
   ex_records ! 1 = [''1'', '' Y '', ''7''] \<and>
   (\<exists>out. convertRecords ex_records ex_source ex_target = Inr out \<and> out ! 1 ! 0 = ''7'')"
proof -
  have first: "find (\<lambda>s. TargetColumn s = Column (ex_target ! 0)) ex_source = Some ex_id"
    by (simp add: ex_defs)
  have rows: "ex_records ! 0 = [''id'', '' status '', ''id'']" "ex_records ! 1 = [''1'', '' Y '', ''7'']"
    "Column ex_id = ''id''"
    by (simp_all add: ex_defs)
  have last: "2 < length (ex_records ! 0)" "TrimSpace (ex_records ! 0 ! 2) = Column ex_id"
    by code_simp+
  have later: "\<forall>j<length (ex_records ! 0). 2 < j \<longrightarrow> TrimSpace (ex_records ! 0 ! j) \<noteq> Column ex_id"
    by (simp add: rows)
  have cell: "TrimSpace (ex_records ! 1 ! 2) = ''7''" "convertValue ''7'' ex_id = ''7''"
    by code_simp+
  have "(0::nat) < 1" "1 < length ex_records" "0 < length ex_target"
    by (simp_all add: ex_defs)
  from sourceColIndex_last_wins [OF this first last later] first rows cell
  show ?thesis by simp
qed

section \<open>Source entries with no target column\<close>

lemma find_filter_implied:
  "(\<And>s. P s \<Longrightarrow> Q s) \<Longrightarrow> find P (filter Q S) = find P S"
  by (induction S) auto

lemma cellValue_filter:
  "Column t \<noteq> '''' \<Longrightarrow>
   cellValue idx (filter (\<lambda>s. TargetColumn s \<noteq> '''') S) row t = cellValue idx S row t"
  by (simp add: cellValue_def find_filter_implied)

lemma cellValue_unfed:
  "\<forall>s\<in>set S. TargetColumn s \<noteq> Column t \<Longrightarrow> cellValue idx S row t = ''''"
proof -
  assume "\<forall>s\<in>set S. TargetColumn s \<noteq> Column t"
  then have "find (\<lambda>s. TargetColumn s = Column t) S = None"
    by (simp add: find_None_iff)
  then show ?thesis by (simp add: cellValue_def)
qed

text \<open>
  C3 (as amended). For a data row and a target column whose name is not the empty string:
  the conversion returns a table; the output cell is the one the conversion computes with
  every source entry of empty target column removed from the source schema; and if every
  source entry has an empty target column or names another target column, the output cell
  is the empty string.
\<close>

theorem convertRecords_unmapped_entry:
  assumes "0 < r" "r < length records" "i < length T"
    and "Column (T ! i) \<noteq> ''''"
  shows "\<exists>out out'.
           convertRecords records S T = Inr out \<and>
           convertRecords records (filter (\<lambda>s. TargetColumn s \<noteq> '''') S) T = Inr out' \<and>
           out ! r ! i = out' ! r ! i \<and>
           ((\<forall>s\<in>set S. TargetColumn s = '''' \<or> TargetColumn s \<noteq> Column (T ! i)) \<longrightarrow>
              out ! r ! i = '''')"
proof -
  let ?idx = "sourceColIndex (records ! 0)"
  let ?S' = "filter (\<lambda>s. TargetColumn s \<noteq> '''') S"
  from convertRecords_cell [OF assms(1-3), of S] obtain out where
    out: "convertRecords records S T = Inr out"
      "out ! r ! i = cellValue ?idx S (records ! r) (T ! i)"
    by blast
  from convertRecords_cell [OF assms(1-3), of ?S'] obtain out' where
    out': "convertRecords records ?S' T = Inr out'"
      "out' ! r ! i = cellValue ?idx ?S' (records ! r) (T ! i)"
    by blast
  from out(2) out'(2) assms(4) have same: "out ! r ! i = out' ! r ! i"
    by (simp add: cellValue_filter)
  have "out ! r ! i = ''''"
    if "\<forall>s\<in>set S. TargetColumn s = '''' \<or> TargetColumn s \<noteq> Column (T ! i)"
  proof -
    from that assms(4) have "\<forall>s\<in>set S. TargetColumn s \<noteq> Column (T ! i)" by auto
    from cellValue_unfed [OF this] out(2) show ?thesis by simp
  qed
  with out(1) out'(1) same show ?thesis by blast
qed

theorem convertRecords_unmapped_entry_witness:
  "TargetColumn (ex_source ! 2) = '''' \<and> Column (ex_target ! 3) = ''phone'' \<and>
   list_all (\<lambda>s. TargetColumn s = '''' \<or> TargetColumn s \<noteq> Column (ex_target ! 3)) ex_source \<and>
   (\<exists>out out'.
      convertRecords ex_records ex_source ex_target = Inr out \<and>
      convertRecords ex_records (filter (\<lambda>s. TargetColumn s \<noteq> '''') ex_source) ex_target = Inr out' \<and>
      out ! 1 ! 3 = out' ! 1 ! 3 \<and> out ! 1 ! 3 = '''')"
proof -
  have facts: "TargetColumn (ex_source ! 2) = ''''" "Column (ex_target ! 3) = ''phone''"
    "Column (ex_target ! 3) \<noteq> ''''"
    by (simp_all add: ex_source_def ex_target_def)
  have only: "\<forall>s\<in>set ex_source. TargetColumn s = '''' \<or> TargetColumn s \<noteq> Column (ex_target ! 3)"
    by (simp add: ex_source_def ex_target_def ex_status_def ex_id_def)
  have "(0::nat) < 1" "1 < length ex_records" "3 < length ex_target"
    by (simp_all add: ex_records_def ex_target_def)
  from convertRecords_unmapped_entry [OF this facts(3), of ex_source] facts only
  show ?thesis by (auto simp: list_all_iff)
qed

text \<open>
  The claim as first stated fails for a target column whose name is the empty string: the
  comparison \<^verbatim>\<open>sourceCol.TargetColumn == targetCol.Column\<close> holds for a source entry with
  no target column, which then supplies the cell. Without that entry the cell is empty.
\<close>

theorem convertRecords_unnamed_target_counterexample:
  "TargetColumn (ex_unnamed_source ! 0) = '''' \<and>
   convertRecords ex_unnamed_records ex_unnamed_source ex_unnamed_target = Inr [[''''], [''x'']] \<and>
   convertRecords ex_unnamed_records (filter (\<lambda>s. TargetColumn s \<noteq> '''') ex_unnamed_source)
     ex_unnamed_target = Inr [[''''], ['''']]"
  by code_simp

section \<open>The round trip through the identity schema\<close>

lemma cellValue_Column_cong:
  "Column a = Column b \<Longrightarrow> cellValue idx S row a = cellValue idx S row b"
  by (simp add: cellValue_def)

lemma identitySchema_props:
  "map Column (identitySchema T) = map Column T"
  "length (identitySchema T) = length T"
  "s \<in> set (identitySchema T) \<Longrightarrow> TargetColumn s = Column s \<and> ValuesMapping s = None"
  by (auto simp: identitySchema_def)

lemma identity_cell:
  assumes trimmed: "\<forall>t\<in>set T. TrimSpace (Column t) = Column t"
    and same: "\<And>a b. Column a = Column b \<Longrightarrow> f a = f b"
    and t: "t \<in> set T" and t': "Column t' = Column t"
  shows "cellValue (sourceColIndex (map Column T)) (identitySchema T) (map f T) t' = TrimSpace (f t)"
proof -
  let ?I = "identitySchema T"
  let ?P = "\<lambda>s. TargetColumn s = Column t'"
  from t have "t\<lparr>TargetColumn := Column t, ValuesMapping := None\<rparr> \<in> set ?I"
    by (auto simp: identitySchema_def)
  with t' have "\<exists>s\<in>set ?I. ?P s"
    by (intro bexI [where x = "t\<lparr>TargetColumn := Column t, ValuesMapping := None\<rparr>"]) simp_all
  then obtain s where s: "find ?P ?I = Some s"
    by (cases "find ?P ?I") (auto simp: find_None_iff)
  then have "s \<in> set ?I" "?P s"
    by (auto simp: find_Some_iff)
  with identitySchema_props(3) [of s T] t' have cs: "Column s = Column t" and vm: "ValuesMapping s = None"
    by auto
  from t trimmed have "Column t \<in> TrimSpace ` set (map Column T)"
    by force
  with sourceColIndex_None [of "map Column T" "Column t"]
  obtain j where j: "sourceColIndex (map Column T) (Column t) = Some j"
    by (cases "sourceColIndex (map Column T) (Column t)") auto
  from sourceColIndex_Some [OF j] have jl: "j < length T" and "TrimSpace (Column (T ! j)) = Column t"
    by auto
  with trimmed have "Column (T ! j) = Column t"
    by (metis nth_mem)
  from same [OF this] jl have cell: "map f T ! j = f t" by simp
  from s cs j jl cell vm show ?thesis
    by (simp add: cellValue_def convertValue_def)
qed

text \<open>
  C8 (as amended). If no column name of the target schema has white space around it, then
  converting the result of a conversion again, with the identity schema of the target
  schema as source and as target schema, returns the header unchanged and every data cell
  trimmed.
\<close>

theorem identity_round_trip:
  assumes "convertRecords records S T = Inr out"
    and "\<forall>t\<in>set T. TrimSpace (Column t) = Column t"
  shows "convertRecords out (identitySchema T) (identitySchema T) =
           Inr (hd out # map (map TrimSpace) (tl out))"
proof -
  from assms(1) obtain header dataRows where recs: "records = header # dataRows"
    by (cases records) (auto simp: convertRecords_Nil)
  let ?f = "\<lambda>row. cellValue (sourceColIndex header) S row"
  from assms(1) recs have out: "out = map Column T # map (\<lambda>row. map (?f row) T) dataRows"
    by (simp add: convertRecords_Cons)
  have cell: "map (cellValue (sourceColIndex (map Column T)) (identitySchema T) (map (?f row) T))
                (identitySchema T) = map TrimSpace (map (?f row) T)" for row
  proof -
    have "cellValue (sourceColIndex (map Column T)) (identitySchema T) (map (?f row) T)
            (t\<lparr>TargetColumn := Column t, ValuesMapping := None\<rparr>) = TrimSpace (?f row t)"
      if "t \<in> set T" for t
    proof (rule identity_cell [where f = "?f row", OF assms(2) _ that])
      show "?f row a = ?f row b" if "Column a = Column b" for a b
        using that by (rule cellValue_Column_cong)
      show "Column (t\<lparr>TargetColumn := Column t, ValuesMapping := None\<rparr>) = Column t"
        by simp
    qed
    then show ?thesis
      by (simp add: identitySchema_def)
  qed
  show ?thesis
    by (simp add: out convertRecords_Cons identitySchema_props(1) cell)
qed

theorem identity_round_trip_witness:
  "convertRecords ex_round_records ex_round_source ex_round_target =
     Inr [[''key'', ''active''], [''1'', '' yes ''], [''2'', ''  '']] \<and>
   list_all (\<lambda>t. TrimSpace (Column t) = Column t) ex_round_target \<and>
   convertRecords [[''key'', ''active''], [''1'', '' yes ''], [''2'', ''  '']]
     (identitySchema ex_round_target) (identitySchema ex_round_target) =
     Inr [[''key'', ''active''], [''1'', ''yes''], [''2'', '''']]"
proof -
  have first: "convertRecords ex_round_records ex_round_source ex_round_target =
     Inr [[''key'', ''active''], [''1'', '' yes ''], [''2'', ''  '']]"
    by code_simp
  have trimmed: "\<forall>t\<in>set ex_round_target. TrimSpace (Column t) = Column t"
    by code_simp
  have cells: "map (map TrimSpace) [[''1'', '' yes ''], [''2'', ''  '']] = [[''1'', ''yes''], [''2'', '''']]"
    by code_simp
  from identity_round_trip [OF first trimmed] first trimmed cells
  show ?thesis by (simp add: list_all_iff)
qed

text \<open>
  The claim as first stated fails for a target column whose name starts with a space: the
  header index holds the trimmed name, the lookup uses the name as the schema has it, and
  the second conversion returns an empty cell for \<open>7\<close>.
\<close>

theorem identity_round_trip_counterexample:
  "convertRecords ex_padded_records ex_padded_source ex_padded_target = Inr [['' id''], [''7'']] \<and>
   convertRecords [['' id''], [''7'']] (identitySchema ex_padded_target)
     (identitySchema ex_padded_target) = Inr [['' id''], ['''']]"
  by code_simp

end
